theory Spec2Isabelle
  imports Main "HOL-Library.Word"
begin

section \<open>JavaScript strings\<close>

text \<open>
  A JavaScript string is a sequence of 16-bit code units. The scripts only compare
  strings, trim them and match them against one regular expression, so a list of
  16-bit words is all that is needed. String literals of the source are written as
  Isabelle literals and injected with \<open>js\<close>.
\<close>

type_synonym code_unit = "16 word"
type_synonym jsstring = "code_unit list"

definition js :: "string \<Rightarrow> jsstring" where
  "js s = map (\<lambda>c. word_of_nat (of_char c)) s"

text \<open>
  The code units that ECMAScript calls WhiteSpace or LineTerminator. The regular
  expression class \<open>\s\<close> and \<open>String.prototype.trim\<close> use the same set: TAB, LF, VT, FF,
  CR, SPACE, NBSP, U+1680, U+2000 to U+200A, U+2028, U+2029, U+202F, U+205F, U+3000 and
  U+FEFF.
\<close>

definition isWhiteSpace :: "code_unit \<Rightarrow> bool" where
  "isWhiteSpace c \<longleftrightarrow>
     c = 0x9 \<or> c = 0xA \<or> c = 0xB \<or> c = 0xC \<or> c = 0xD \<or> c = 0x20 \<or> c = 0xA0 \<or>
     c = 0x1680 \<or> (0x2000 \<le> c \<and> c \<le> 0x200A) \<or> c = 0x2028 \<or> c = 0x2029 \<or>
     c = 0x202F \<or> c = 0x205F \<or> c = 0x3000 \<or> c = 0xFEFF"

text \<open>\<open>value.trim()\<close>: white space is stripped from both ends.\<close>

definition trim :: "jsstring \<Rightarrow> jsstring" where
  "trim s = rev (dropWhile isWhiteSpace (rev (dropWhile isWhiteSpace s)))"

section \<open>The regular expression of validateEmail\<close>

text \<open>
  The only regular expression of the source is \<open>/^[^\s@]+@[^\s@]+\.[^\s@]+$/\<close>: anchored
  at both ends, a sequence of terms, each a single character or a class, some of them
  under the greedy quantifier \<open>+\<close>. \<open>regexTest\<close> is the backtracking matcher for such
  sequences: under \<open>+\<close> it first tries to take one more code unit and then falls back to
  the rest of the pattern; the empty pattern is the anchor \<open>$\<close>.
\<close>

datatype atom =
    Char code_unit      \<comment> \<open>a literal character\<close>
  | NotSpaceNor code_unit  \<comment> \<open>the class \<open>[^\sc]\<close>\<close>

datatype rterm = Single atom | OneOrMore atom

fun accepts :: "atom \<Rightarrow> code_unit \<Rightarrow> bool" where
  "accepts (Char a) c \<longleftrightarrow> c = a"
| "accepts (NotSpaceNor a) c \<longleftrightarrow> \<not> isWhiteSpace c \<and> c \<noteq> a"

fun regexTest :: "rterm list \<Rightarrow> jsstring \<Rightarrow> bool" where
  "regexTest [] s \<longleftrightarrow> s = []"
| "regexTest (t # ts) [] \<longleftrightarrow> False"
| "regexTest (Single a # ts) (c # cs) \<longleftrightarrow> accepts a c \<and> regexTest ts cs"
| "regexTest (OneOrMore a # ts) (c # cs) \<longleftrightarrow>
     accepts a c \<and> (regexTest (OneOrMore a # ts) cs \<or> regexTest ts cs)"

abbreviation at_sign :: code_unit where "at_sign \<equiv> 0x40"
abbreviation full_stop :: code_unit where "full_stop \<equiv> 0x2E"

definition emailRegex :: "rterm list" where
  "emailRegex =
     [OneOrMore (NotSpaceNor at_sign), Single (Char at_sign),
      OneOrMore (NotSpaceNor at_sign), Single (Char full_stop),
      OneOrMore (NotSpaceNor at_sign)]"

section \<open>Form validation\<close>

definition validateEmail :: "jsstring \<Rightarrow> bool" where
  "validateEmail email = regexTest emailRegex email"

definition validateRequired :: "jsstring \<Rightarrow> bool" where
  "validateRequired v \<longleftrightarrow> length (trim v) > 0"

text \<open>
  A form group is the \<open>.form-group\<close> element around a field: its class list (a
  DOMTokenList, an ordered set of tokens) and the text of its \<open>.error-message\<close> child,
  \<open>None\<close> when the group has no such child (\<open>querySelector\<close> returns null).
\<close>

record form_group =
  classList :: "jsstring list"
  errorElement :: "jsstring option"

definition classList_add :: "jsstring \<Rightarrow> jsstring list \<Rightarrow> jsstring list" where
  "classList_add c cl = (if c \<in> set cl then cl else cl @ [c])"

definition classList_remove :: "jsstring \<Rightarrow> jsstring list \<Rightarrow> jsstring list" where
  "classList_remove c cl = filter (\<lambda>x. x \<noteq> c) cl"

definition classList_contains :: "jsstring \<Rightarrow> jsstring list \<Rightarrow> bool" where
  "classList_contains c cl \<longleftrightarrow> c \<in> set cl"

definition showError :: "form_group \<Rightarrow> jsstring \<Rightarrow> form_group" where
  "showError formGroup message =
     formGroup\<lparr>classList := classList_add (js ''error'') (classList formGroup),
               errorElement := (case errorElement formGroup of
                                  None \<Rightarrow> None
                                | Some old \<Rightarrow> Some message)\<rparr>"

definition clearError :: "form_group \<Rightarrow> form_group" where
  "clearError formGroup =
     formGroup\<lparr>classList := classList_remove (js ''error'') (classList formGroup),
               errorElement := (case errorElement formGroup of
                                  None \<Rightarrow> None
                                | Some old \<Rightarrow> Some [])\<rparr>"

text \<open>
  A field is an \<open>input\<close> element, with the state of its \<open>type\<close> attribute, or a
  \<open>textarea\<close>, whose \<open>type\<close> property reads \<open>textarea\<close>. \<open>closest\<close> is the nearest
  \<open>.form-group\<close> ancestor, a reference into the store of form groups, \<open>None\<close> when
  there is none. Several fields may name the same group.
\<close>

datatype element_kind = Input jsstring | Textarea

record field =
  kind :: element_kind
  name :: jsstring
  required :: bool
  field_value :: jsstring
  closest :: "nat option"

fun field_type :: "element_kind \<Rightarrow> jsstring" where
  "field_type (Input t) = t"
| "field_type Textarea = js ''textarea''"

fun isInput :: "element_kind \<Rightarrow> bool" where
  "isInput (Input t) = True"
| "isInput Textarea = False"

fun isTextarea :: "element_kind \<Rightarrow> bool" where
  "isTextarea (Input t) = False"
| "isTextarea Textarea = True"

type_synonym groups = "nat \<Rightarrow> form_group"

datatype error = TypeError

text \<open>
  \<open>validateField\<close> returns the boolean and the updated groups. With no enclosing
  \<open>.form-group\<close>, \<open>clearError\<close> reads \<open>classList\<close> of null and throws.
\<close>

definition validateField :: "field \<Rightarrow> groups \<Rightarrow> error + (bool \<times> groups)" where
  "validateField fld gs =
     (case closest fld of
        None \<Rightarrow> Inl TypeError
      | Some g \<Rightarrow>
          let v = field_value fld;
              gs1 = gs(g := clearError (gs g))
          in if required fld \<and> \<not> validateRequired v then
               Inr (False, gs1(g := showError (gs1 g) (js ''This field is required'')))
             else if field_type (kind fld) = js ''email'' \<and> length (trim v) > 0
                     \<and> \<not> validateEmail v then
               Inr (False, gs1(g := showError (gs1 g) (js ''Please enter a valid email address'')))
             else Inr (True, gs1))"

text \<open>
  A form is the list of its fields in document order. \<open>querySelectorAll\<close> keeps the
  elements that match one of the three selectors of the source.
\<close>

definition matchesSelector :: "field \<Rightarrow> bool" where
  "matchesSelector fld \<longleftrightarrow>
     isInput (kind fld) \<and> required fld
     \<or> isTextarea (kind fld) \<and> required fld
     \<or> kind fld = Input (js ''email'')"

definition querySelectorAll :: "field list \<Rightarrow> field list" where
  "querySelectorAll form = filter matchesSelector form"

text \<open>The \<open>forEach\<close> loop of \<open>validateForm\<close>, with \<open>isValid\<close> and the groups as state.\<close>

fun forEach :: "field list \<Rightarrow> bool \<Rightarrow> groups \<Rightarrow> error + (bool \<times> groups)" where
  "forEach [] isValid gs = Inr (isValid, gs)"
| "forEach (fld # flds) isValid gs =
     (case validateField fld gs of
        Inl e \<Rightarrow> Inl e
      | Inr (ok, gs') \<Rightarrow> forEach flds (if \<not> ok then False else isValid) gs')"

definition validateForm :: "field list \<Rightarrow> groups \<Rightarrow> error + (bool \<times> groups)" where
  "validateForm form gs = forEach (querySelectorAll form) True gs"

section \<open>The portfolio modal\<close>

record project_data =
  image :: jsstring
  imageAlt :: jsstring
  title :: jsstring
  description :: jsstring
  detailedDescription :: jsstring

definition projectOne :: project_data where
  "projectOne =
     \<lparr>image = js ''images/project1.jpg'',
      imageAlt = js ''Screenshot of Project 1'',
      title = js ''Project One'',
      description = js ''A responsive web application built with modern technologies.'',
      detailedDescription = js ''This project showcases a fully responsive web application that adapts seamlessly to different screen sizes. Built using HTML5, CSS3, and JavaScript, it features smooth animations, intuitive navigation, and optimized performance. The application demonstrates best practices in web development including semantic HTML, accessibility features, and clean code architecture.''\<rparr>"

definition projectTwo :: project_data where
  "projectTwo =
     \<lparr>image = js ''images/project2.jpg'',
      imageAlt = js ''Screenshot of Project 2'',
      title = js ''Project Two'',
      description = js ''An interactive website featuring smooth animations and user-friendly design.'',
      detailedDescription = js ''An engaging interactive website that combines beautiful design with functional user experience. Features include scroll-triggered animations, dynamic content loading, and responsive layouts. The project emphasizes user engagement through thoughtful interactions and visual feedback, creating an immersive browsing experience.''\<rparr>"

definition projectThree :: project_data where
  "projectThree =
     \<lparr>image = js ''images/project3.jpg'',
      imageAlt = js ''Screenshot of Project 3'',
      title = js ''Project Three'',
      description = js ''A portfolio website showcasing creative work and design skills.'',
      detailedDescription = js ''A comprehensive portfolio website designed to showcase creative work and professional achievements. The site features a clean, modern design with emphasis on visual presentation. Includes project galleries, detailed case studies, and contact integration. Built with performance and accessibility in mind, ensuring fast load times and compatibility across all devices.''\<rparr>"

text \<open>The own properties of the object literal \<open>portfolioData\<close>, in source order.\<close>

definition portfolioData :: "(jsstring \<times> project_data) list" where
  "portfolioData =
     [(js ''Project One'', projectOne),
      (js ''Project Two'', projectTwo),
      (js ''Project Three'', projectThree)]"

text \<open>
  \<open>portfolioData\<close> is an ordinary object, so its prototype is \<open>Object.prototype\<close> and a
  property read \<open>portfolioData[projectTitle]\<close> that finds no own property goes on to the
  prototype. These are the property names of \<open>Object.prototype\<close> in a browser; each
  holds a function, or for \<open>__proto__\<close> an object.
\<close>

definition objectPrototypeKeys :: "jsstring list" where
  "objectPrototypeKeys =
     [js ''constructor'', js ''hasOwnProperty'', js ''isPrototypeOf'',
      js ''propertyIsEnumerable'', js ''toLocaleString'', js ''toString'', js ''valueOf'',
      js ''__proto__'', js ''__defineGetter__'', js ''__defineSetter__'',
      js ''__lookupGetter__'', js ''__lookupSetter__'']"

datatype jsvalue =
    Undefined
  | Project project_data
  | Inherited  \<comment> \<open>a function or object found on \<open>Object.prototype\<close>\<close>

definition getProperty :: "jsstring \<Rightarrow> jsvalue" where
  "getProperty key =
     (case map_of portfolioData key of
        Some p \<Rightarrow> Project p
      | None \<Rightarrow> if key \<in> set objectPrototypeKeys then Inherited else Undefined)"

fun truthy :: "jsvalue \<Rightarrow> bool" where
  "truthy Undefined = False"
| "truthy (Project p) = True"
| "truthy Inherited = True"

text \<open>
  Reading one of the five fields of a truthy value; \<open>None\<close> is \<open>undefined\<close>, which is
  what the functions and objects of \<open>Object.prototype\<close> give for these names. The
  source reads fields only under \<open>if (projectData)\<close>.
\<close>

fun member :: "jsvalue \<Rightarrow> (project_data \<Rightarrow> jsstring) \<Rightarrow> jsstring option" where
  "member (Project p) sel = Some (sel p)"
| "member Inherited sel = None"
| "member Undefined sel = None"

text \<open>
  Assigning to a DOM attribute converts the value: \<open>src\<close> and \<open>alt\<close> are strings, so
  \<open>undefined\<close> becomes the text \<open>undefined\<close>; \<open>textContent\<close> is a nullable string, so
  \<open>undefined\<close> becomes null and the text is emptied.
\<close>

definition toDOMString :: "jsstring option \<Rightarrow> jsstring" where
  "toDOMString v = (case v of None \<Rightarrow> js ''undefined'' | Some x \<Rightarrow> x)"

definition toTextContent :: "jsstring option \<Rightarrow> jsstring" where
  "toTextContent v = (case v of None \<Rightarrow> [] | Some x \<Rightarrow> x)"

text \<open>
  The part of the page the script reads and writes: the five slots of the overlay, the
  class list of the overlay, \<open>document.body.style.overflow\<close>, and the focused element.
\<close>

datatype focus = PortfolioItem nat | ModalClose | Elsewhere

record page =
  modalImage_src :: jsstring
  modalImage_alt :: jsstring
  modalTitle :: jsstring
  modalDescription :: jsstring
  modalDetails :: jsstring
  modal_classList :: "jsstring list"
  body_overflow :: jsstring
  activeElement :: focus

text \<open>
  A portfolio item: its position among the items and the text of its
  \<open>.portfolio-title\<close> child, \<open>None\<close> when it has no such child.
\<close>

record item =
  item_index :: nat
  portfolio_title :: "jsstring option"

text \<open>The body of \<open>openPortfolioModal\<close> once the title has been read.\<close>

definition openTitle :: "jsstring \<Rightarrow> page \<Rightarrow> page" where
  "openTitle projectTitle s =
     (let projectData = getProperty projectTitle
      in if truthy projectData then
           s\<lparr>modalImage_src := toDOMString (member projectData image),
             modalImage_alt := toDOMString (member projectData imageAlt),
             modalTitle := toTextContent (member projectData title),
             modalDescription := toTextContent (member projectData description),
             modalDetails := toTextContent (member projectData detailedDescription),
             modal_classList := classList_add (js ''active'') (modal_classList s),
             body_overflow := js ''hidden'',
             activeElement := ModalClose\<rparr>
         else s)"

text \<open>Without a \<open>.portfolio-title\<close> child, \<open>textContent\<close> is read from null.\<close>

definition openPortfolioModal :: "item \<Rightarrow> page \<Rightarrow> error + page" where
  "openPortfolioModal it s =
     (case portfolio_title it of
        None \<Rightarrow> Inl TypeError
      | Some projectTitle \<Rightarrow> Inr (openTitle projectTitle s))"

text \<open>
  \<open>closeModal\<close>. The element matching \<open>.portfolio-item:focus\<close>, if there is one, is
  focused again.
\<close>

definition closeModal :: "page \<Rightarrow> page" where
  "closeModal s =
     (let s1 = s\<lparr>modal_classList := classList_remove (js ''active'') (modal_classList s),
                 body_overflow := []\<rparr>
      in case activeElement s1 of
           PortfolioItem i \<Rightarrow> s1\<lparr>activeElement := PortfolioItem i\<rparr>
         | ModalClose \<Rightarrow> s1
         | Elsewhere \<Rightarrow> s1)"

text \<open>
  The event listeners. A listener on a portfolio item returns whether it called
  \<open>preventDefault\<close> and how \<open>openPortfolioModal\<close> completed.
\<close>

definition item_click :: "item \<Rightarrow> page \<Rightarrow> bool \<times> (error + page)" where
  "item_click it s = (True, openPortfolioModal it s)"

definition item_keydown :: "jsstring \<Rightarrow> item \<Rightarrow> page \<Rightarrow> bool \<times> (error + page)" where
  "item_keydown key it s =
     (if key = js ''Enter'' \<or> key = js '' '' then (True, openPortfolioModal it s)
      else (False, Inr s))"

definition modalClose_click :: "page \<Rightarrow> page" where
  "modalClose_click s = closeModal s"

text \<open>The click listener of the overlay; the flag says whether the target is the overlay itself.\<close>

definition modal_click :: "bool \<Rightarrow> page \<Rightarrow> page" where
  "modal_click target_is_modal s = (if target_is_modal then closeModal s else s)"

definition document_keydown :: "jsstring \<Rightarrow> page \<Rightarrow> page" where
  "document_keydown key s =
     (if key = js ''Escape'' \<and> classList_contains (js ''active'') (modal_classList s)
      then closeModal s else s)"

text \<open>The states the specification speaks of.\<close>

definition overlayActive :: "page \<Rightarrow> bool" where
  "overlayActive s \<longleftrightarrow> classList_contains (js ''active'') (modal_classList s)"

definition scrollSuppressed :: "page \<Rightarrow> bool" where
  "scrollSuppressed s \<longleftrightarrow> body_overflow s = js ''hidden''"

text \<open>Notions used to state the properties.\<close>

definition blank :: "jsstring \<Rightarrow> bool" where
  "blank v \<longleftrightarrow> (\<forall>c\<in>set v. isWhiteSpace c)"

text \<open>A non-empty string without white space and without \<open>@\<close>.\<close>

definition plain :: "jsstring \<Rightarrow> bool" where
  "plain u \<longleftrightarrow> u \<noteq> [] \<and> (\<forall>c\<in>set u. \<not> isWhiteSpace c \<and> c \<noteq> at_sign)"

text \<open>
  The verdict of \<open>validateField\<close> and its effect on the field's group, each as a
  function of the field alone; \<open>validateField_eq\<close> below relates them to the code.
\<close>

definition passes :: "field \<Rightarrow> bool" where
  "passes fld \<longleftrightarrow>
     \<not> (required fld \<and> \<not> validateRequired (field_value fld))
     \<and> \<not> (field_type (kind fld) = js ''email'' \<and> length (trim (field_value fld)) > 0
          \<and> \<not> validateEmail (field_value fld))"

definition groupAfter :: "field \<Rightarrow> form_group \<Rightarrow> form_group" where
  "groupAfter fld grp =
     (if required fld \<and> \<not> validateRequired (field_value fld) then
        showError (clearError grp) (js ''This field is required'')
      else if field_type (kind fld) = js ''email'' \<and> length (trim (field_value fld)) > 0
              \<and> \<not> validateEmail (field_value fld) then
        showError (clearError grp) (js ''Please enter a valid email address'')
      else clearError grp)"

text \<open>Concrete forms and pages, used to run the code on examples.\<close>

definition exampleGroups :: groups where
  "exampleGroups = (\<lambda>g. \<lparr>classList = [js ''form-group''], errorElement = Some []\<rparr>)"

definition exampleField :: "element_kind \<Rightarrow> bool \<Rightarrow> jsstring \<Rightarrow> nat \<Rightarrow> field" where
  "exampleField k r v g = \<lparr>kind = k, name = [], required = r, field_value = v, closest = Some g\<rparr>"

definition exampleForm :: "field list" where
  "exampleForm =
     [exampleField (Input (js ''text'')) True (js ''   '') 0,
      exampleField (Input (js ''email'')) True (js ''bad'') 1,
      exampleField Textarea True (js ''Hello'') 2]"

definition validForm :: "field list" where
  "validForm =
     [exampleField (Input (js ''text'')) True (js ''Alice'') 0,
      exampleField (Input (js ''email'')) True (js ''alice@example.com'') 1,
      exampleField Textarea True (js ''Hello'') 2]"

definition sharedGroupForm :: "field list" where
  "sharedGroupForm =
     [exampleField (Input (js ''text'')) True (js ''   '') 0,
      exampleField Textarea True (js ''Hello'') 0]"

definition closedPage :: page where
  "closedPage =
     \<lparr>modalImage_src = [], modalImage_alt = [], modalTitle = [], modalDescription = [],
      modalDetails = [], modal_classList = [js ''modal''], body_overflow = [],
      activeElement = Elsewhere\<rparr>"

definition exampleItem :: "nat \<Rightarrow> string \<Rightarrow> item" where
  "exampleItem i t = \<lparr>item_index = i, portfolio_title = Some (js t)\<rparr>"

section \<open>Properties of strings\<close>

lemma js_Nil [simp]: "js [] = []" by (simp add: js_def)
lemma js_Cons: "js (c # cs) = word_of_nat (of_char c) # js cs" by (simp add: js_def)

lemma unat_code_unit_of_char: "unat (word_of_nat (of_char c) :: code_unit) = of_char c"
proof -
  have "(of_char c :: nat) < 256" by (rule nat_of_char_less_256)
  also have "\<dots> < 2 ^ 16" by simp
  finally show ?thesis by (simp add: unat_of_nat)
qed

lemma code_unit_of_char_eq_iff:
  "(word_of_nat (of_char a) :: code_unit) = word_of_nat (of_char b) \<longleftrightarrow> a = b"
proof
  assume "(word_of_nat (of_char a) :: code_unit) = word_of_nat (of_char b)"
  then have "unat (word_of_nat (of_char a) :: code_unit) = unat (word_of_nat (of_char b) :: code_unit)"
    by simp
  then have "(of_char a :: nat) = of_char b"
    by (simp only: unat_code_unit_of_char)
  then show "a = b" by simp
qed simp

lemma js_eq_iff [simp]: "js a = js b \<longleftrightarrow> a = b"
proof (induction a arbitrary: b)
  case Nil
  then show ?case by (cases b) (auto simp: js_def)
next
  case (Cons x xs)
  then show ?case by (cases b) (auto simp: js_Cons code_unit_of_char_eq_iff)
qed

lemma js_eq_Nil_iff [simp]: "js a = [] \<longleftrightarrow> a = []" "[] = js a \<longleftrightarrow> a = []"
  by (auto simp: js_def)

lemma dropWhile_all_iff: "(\<forall>x\<in>set (dropWhile P xs). P x) \<longleftrightarrow> dropWhile P xs = []"
proof
  assume all: "\<forall>x\<in>set (dropWhile P xs). P x"
  show "dropWhile P xs = []"
  proof (rule ccontr)
    assume ne: "dropWhile P xs \<noteq> []"
    then have "\<not> P (hd (dropWhile P xs))" by (rule hd_dropWhile)
    moreover from ne have "hd (dropWhile P xs) \<in> set (dropWhile P xs)" by (rule hd_in_set)
    ultimately show False using all by blast
  qed
next
  assume "dropWhile P xs = []"
  then show "\<forall>x\<in>set (dropWhile P xs). P x" by (simp only: set_simps(1) ball_empty)
qed

lemma trim_eq_Nil_iff: "trim v = [] \<longleftrightarrow> blank v"
proof -
  have "trim v = [] \<longleftrightarrow> (\<forall>x\<in>set (dropWhile isWhiteSpace v). isWhiteSpace x)"
    by (simp add: trim_def dropWhile_eq_Nil_conv)
  also have "\<dots> \<longleftrightarrow> dropWhile isWhiteSpace v = []"
    by (rule dropWhile_all_iff)
  also have "\<dots> \<longleftrightarrow> blank v"
    by (simp add: dropWhile_eq_Nil_conv blank_def)
  finally show ?thesis .
qed

lemma validateRequired_iff: "validateRequired v \<longleftrightarrow> \<not> blank v"
  by (simp add: validateRequired_def trim_eq_Nil_iff)

section \<open>Properties of the regular expression\<close>

lemma regexTest_Single:
  "regexTest (Single a # ts) s \<longleftrightarrow> (\<exists>c v. s = c # v \<and> accepts a c \<and> regexTest ts v)"
  by (cases s) auto

lemma regexTest_OneOrMore:
  "regexTest (OneOrMore a # ts) s \<longleftrightarrow>
     (\<exists>u v. s = u @ v \<and> u \<noteq> [] \<and> (\<forall>c\<in>set u. accepts a c) \<and> regexTest ts v)"
proof (induction s)
  case Nil
  then show ?case by simp
next
  case (Cons c cs)
  show ?case
  proof
    assume "regexTest (OneOrMore a # ts) (c # cs)"
    then have acc: "accepts a c"
      and alt: "regexTest (OneOrMore a # ts) cs \<or> regexTest ts cs"
      by simp_all
    from alt show "\<exists>u v. c # cs = u @ v \<and> u \<noteq> [] \<and> (\<forall>c\<in>set u. accepts a c) \<and> regexTest ts v"
    proof
      assume "regexTest (OneOrMore a # ts) cs"
      with Cons.IH obtain u v where "cs = u @ v" "\<forall>c\<in>set u. accepts a c" "regexTest ts v"
        by blast
      with acc have "c # cs = (c # u) @ v \<and> c # u \<noteq> [] \<and> (\<forall>x\<in>set (c # u). accepts a x) \<and> regexTest ts v"
        by simp
      then show ?thesis by blast
    next
      assume "regexTest ts cs"
      with acc have "c # cs = [c] @ cs \<and> [c] \<noteq> [] \<and> (\<forall>x\<in>set [c]. accepts a x) \<and> regexTest ts cs"
        by simp
      then show ?thesis by blast
    qed
  next
    assume "\<exists>u v. c # cs = u @ v \<and> u \<noteq> [] \<and> (\<forall>c\<in>set u. accepts a c) \<and> regexTest ts v"
    then obtain u v where uv: "c # cs = u @ v" "u \<noteq> []" "\<forall>c\<in>set u. accepts a c" "regexTest ts v"
      by blast
    from uv(1,2) obtain u' where u': "u = c # u'" "cs = u' @ v"
      by (cases u) auto
    with uv(3) have acc: "accepts a c" and rest: "\<forall>x\<in>set u'. accepts a x"
      by simp_all
    show "regexTest (OneOrMore a # ts) (c # cs)"
    proof (cases "u' = []")
      case True
      with u' uv(4) acc show ?thesis by simp
    next
      case False
      with u' rest uv(4) Cons.IH have "regexTest (OneOrMore a # ts) cs" by blast
      with acc show ?thesis by simp
    qed
  qed
qed

lemma validateEmail_iff:
  "validateEmail s \<longleftrightarrow>
     (\<exists>l d t. s = l @ at_sign # d @ full_stop # t \<and> plain l \<and> plain d \<and> plain t)"
proof -
  have last_term: "regexTest [OneOrMore (NotSpaceNor at_sign)] v \<longleftrightarrow> plain v" for v
    by (auto simp: regexTest_OneOrMore plain_def)
  show ?thesis
    unfolding validateEmail_def emailRegex_def
    apply (simp only: regexTest_OneOrMore regexTest_Single last_term accepts.simps)
    apply (rule iffI)
     apply (fastforce simp: plain_def)
    apply (fastforce simp: plain_def)
    done
qed

lemma split_at_unique:
  assumes eq: "l @ x # r = a @ x # b" and l: "x \<notin> set l" and r: "x \<notin> set r"
  shows "l = a \<and> r = b"
  using eq l
proof (induction l arbitrary: a)
  case Nil
  show ?case
  proof (cases a)
    case Nil
    with Nil.prems show ?thesis by simp
  next
    case (Cons y ys)
    with Nil.prems have "r = ys @ x # b" by simp
    with r show ?thesis by simp
  qed
next
  case (Cons z zs)
  show ?case
  proof (cases a)
    case Nil
    with Cons.prems show ?thesis by simp
  next
    case (Cons y ys)
    with Cons.prems Cons.IH[of ys] show ?thesis by simp
  qed
qed

lemma validateEmail_accepts:
  assumes "plain l" "plain d" "plain t"
  shows "validateEmail (l @ at_sign # d @ full_stop # t)"
  using assms validateEmail_iff by blast

lemma validateEmail_needs_at: "validateEmail s \<Longrightarrow> count_list s at_sign = 1"
  by (auto simp: validateEmail_iff plain_def count_list_0_iff)

lemma not_space_at_dot [simp]: "\<not> isWhiteSpace at_sign" "\<not> isWhiteSpace full_stop"
  by (simp_all add: isWhiteSpace_def)

lemma validateEmail_no_space: "validateEmail s \<Longrightarrow> c \<in> set s \<Longrightarrow> \<not> isWhiteSpace c"
  by (auto simp: validateEmail_iff plain_def)

lemma validateEmail_dot_after_at:
  assumes "validateEmail s" "s = a @ at_sign # b"
  shows "full_stop \<in> set b"
proof -
  from assms(1) obtain l d t where s: "s = l @ at_sign # d @ full_stop # t"
    and p: "plain l" "plain d" "plain t"
    unfolding validateEmail_iff by blast
  from p have "at_sign \<notin> set l" "at_sign \<notin> set (d @ full_stop # t)"
    by (auto simp: plain_def)
  with s assms(2) have "d @ full_stop # t = b"
    using split_at_unique[of l at_sign "d @ full_stop # t" a b] by simp
  then show ?thesis by auto
qed

section \<open>What validateEmail accepts\<close>

text \<open>
  C1. Every string \<open>local@domain.tld\<close> whose three parts are non-empty and free of
  white space and of \<open>@\<close> passes \<open>validateEmail\<close>. A string fails it when it has no
  \<open>@\<close>, when it has two or more \<open>@\<close>, when it contains a white-space character, and
  when no full stop follows its \<open>@\<close>.
\<close>

theorem validateEmail_shape:
  "(plain l \<and> plain d \<and> plain t \<longrightarrow> validateEmail (l @ at_sign # d @ full_stop # t))
   \<and> (at_sign \<notin> set s \<longrightarrow> \<not> validateEmail s)
   \<and> (2 \<le> count_list s at_sign \<longrightarrow> \<not> validateEmail s)
   \<and> ((\<exists>c\<in>set s. isWhiteSpace c) \<longrightarrow> \<not> validateEmail s)
   \<and> (s = a @ at_sign # b \<and> full_stop \<notin> set b \<longrightarrow> \<not> validateEmail s)"
proof (intro conjI impI)
  assume "plain l \<and> plain d \<and> plain t"
  then show "validateEmail (l @ at_sign # d @ full_stop # t)"
    by (simp add: validateEmail_accepts)
next
  assume "at_sign \<notin> set s"
  then have "count_list s at_sign = 0" by (simp add: count_list_0_iff)
  then show "\<not> validateEmail s" using validateEmail_needs_at[of s] by auto
next
  assume "2 \<le> count_list s at_sign"
  then show "\<not> validateEmail s" using validateEmail_needs_at[of s] by auto
next
  assume "\<exists>c\<in>set s. isWhiteSpace c"
  then show "\<not> validateEmail s" using validateEmail_no_space[of s] by blast
next
  assume "s = a @ at_sign # b \<and> full_stop \<notin> set b"
  then show "\<not> validateEmail s" using validateEmail_dot_after_at[of s a b] by blast
qed

theorem validateEmail_shape_witness:
  "validateEmail (js ''alice@example.com'')
   \<and> \<not> validateEmail (js ''userexample.com'')
   \<and> \<not> validateEmail (js ''user@@example.com'')
   \<and> \<not> validateEmail (js ''user name@example.com'')
   \<and> \<not> validateEmail (js ''user@example'')"
proof -
  have parts: "plain (js ''alice'') \<and> plain (js ''example'') \<and> plain (js ''com'')"
    by (simp add: plain_def js_def isWhiteSpace_def)
  have whole: "js ''alice@example.com''
      = js ''alice'' @ at_sign # js ''example'' @ full_stop # js ''com''"
    by (simp add: js_def)
  have no_at: "at_sign \<notin> set (js ''userexample.com'')"
    by (simp add: js_def)
  have two_at: "2 \<le> count_list (js ''user@@example.com'') at_sign"
    by (simp add: js_def)
  have space: "\<exists>c\<in>set (js ''user name@example.com''). isWhiteSpace c"
    by (simp add: js_def isWhiteSpace_def)
  have no_dot: "js ''user@example'' = js ''user'' @ at_sign # js ''example''
      \<and> full_stop \<notin> set (js ''example'')"
    by (simp add: js_def)
  have "validateEmail (js ''alice'' @ at_sign # js ''example'' @ full_stop # js ''com'')"
    using validateEmail_shape[of "js ''alice''" "js ''example''" "js ''com''" "[]" "[]" "[]"] parts
    by blast
  then have 1: "validateEmail (js ''alice@example.com'')"
    by (simp only: whole)
  have 2: "\<not> validateEmail (js ''userexample.com'')"
    using validateEmail_shape[of "[]" "[]" "[]" "js ''userexample.com''" "[]" "[]"] no_at
    by blast
  have 3: "\<not> validateEmail (js ''user@@example.com'')"
    using validateEmail_shape[of "[]" "[]" "[]" "js ''user@@example.com''" "[]" "[]"] two_at
    by blast
  have 4: "\<not> validateEmail (js ''user name@example.com'')"
    using validateEmail_shape[of "[]" "[]" "[]" "js ''user name@example.com''" "[]" "[]"] space
    by blast
  have 5: "\<not> validateEmail (js ''user@example'')"
    using validateEmail_shape[of "[]" "[]" "[]" "js ''user@example''" "js ''user''" "js ''example''"]
      no_dot
    by blast
  from 1 2 3 4 5 show ?thesis by blast
qed

section \<open>Properties of validateField and validateForm\<close>

lemma validateField_eq:
  "closest fld = Some g \<Longrightarrow>
   validateField fld gs = Inr (passes fld, gs(g := groupAfter fld (gs g)))"
  by (simp add: validateField_def passes_def groupAfter_def Let_def)

lemma validateField_no_group: "closest fld = None \<Longrightarrow> validateField fld gs = Inl TypeError"
  by (simp add: validateField_def)

lemma contains_add [simp]: "classList_contains c (classList_add c cl)"
  by (simp add: classList_contains_def classList_add_def)

lemma contains_remove [simp]: "\<not> classList_contains c (classList_remove c cl)"
  by (simp add: classList_contains_def classList_remove_def)

lemma showError_fields:
  "classList_contains (js ''error'') (classList (showError grp m))"
  "errorElement grp = Some old \<Longrightarrow> errorElement (showError grp m) = Some m"
  by (simp_all add: showError_def)

lemma clearError_fields:
  "\<not> classList_contains (js ''error'') (classList (clearError grp))"
  "errorElement grp = Some old \<Longrightarrow> errorElement (clearError grp) = Some []"
  by (simp_all add: clearError_def)

lemma showError_slot:
  "errorElement grp = Some old \<Longrightarrow> errorElement (showError (clearError grp) m) = Some m"
  by (simp add: showError_def clearError_def)

lemma exampleField_simps [simp]:
  "kind (exampleField k r v g) = k"
  "required (exampleField k r v g) = r"
  "field_value (exampleField k r v g) = v"
  "closest (exampleField k r v g) = Some g"
  by (simp_all add: exampleField_def)

lemma exampleGroups_slot [simp]: "errorElement (exampleGroups g) = Some []"
  by (simp add: exampleGroups_def)

lemma blank_spaces: "blank (js ''   '')"
  by (simp add: blank_def js_def isWhiteSpace_def)

lemma not_blank_bad: "\<not> blank (js ''bad'')"
  by (simp add: blank_def js_def isWhiteSpace_def)

lemma not_email_bad: "\<not> validateEmail (js ''bad'')"
  by (simp add: validateEmail_def emailRegex_def js_def isWhiteSpace_def)

lemma not_blank_Hello: "\<not> blank (js ''Hello'')"
  by (simp add: blank_def js_def isWhiteSpace_def)

lemma not_blank_examples:
  "\<not> blank (js ''Alice'')" "\<not> blank (js ''alice@example.com'')"
  by (simp_all add: blank_def js_def isWhiteSpace_def)

lemma validateEmail_alice: "validateEmail (js ''alice@example.com'')"
proof -
  have "plain (js ''alice'')" "plain (js ''example'')" "plain (js ''com'')"
    by (simp_all add: plain_def js_def isWhiteSpace_def)
  then have "validateEmail (js ''alice'' @ at_sign # js ''example'' @ full_stop # js ''com'')"
    by (rule validateEmail_accepts)
  then show ?thesis by (simp add: js_def)
qed

text \<open>
  C2. For a field whose value is blank (empty or white space only), inside a
  \<open>.form-group\<close>: \<open>validateField\<close> returns false and marks the group exactly when
  the field is required, and the message slot of the group, where it has one, then
  reads \<open>This field is required\<close>; when the field is not required,
  \<open>validateField\<close> returns true, the group is not marked and the slot is empty.
\<close>

theorem validateField_blank:
  assumes "blank (field_value fld)" and "closest fld = Some g"
  shows "\<exists>ok gs'. validateField fld gs = Inr (ok, gs')
     \<and> (\<not> ok \<longleftrightarrow> required fld)
     \<and> (classList_contains (js ''error'') (classList (gs' g)) \<longleftrightarrow> required fld)
     \<and> (\<forall>old. errorElement (gs g) = Some old \<longrightarrow>
          errorElement (gs' g)
            = Some (if required fld then js ''This field is required'' else []))"
proof (cases "required fld")
  case True
  with assms(1) have "\<not> passes fld"
    "groupAfter fld (gs g) = showError (clearError (gs g)) (js ''This field is required'')"
    by (simp_all add: passes_def groupAfter_def validateRequired_iff)
  with True show ?thesis
    by (auto simp: validateField_eq[OF assms(2)] showError_fields showError_slot)
next
  case False
  with assms(1) have "passes fld" "groupAfter fld (gs g) = clearError (gs g)"
    by (simp_all add: passes_def groupAfter_def trim_eq_Nil_iff)
  with False show ?thesis
    by (auto simp: validateField_eq[OF assms(2)] clearError_fields)
qed

theorem validateField_blank_witness:
  "(\<exists>gs'. validateField (exampleField (Input (js ''text'')) True (js ''   '') 0) exampleGroups
            = Inr (False, gs')
       \<and> errorElement (gs' 0) = Some (js ''This field is required''))
   \<and> (\<exists>gs'. validateField (exampleField (Input (js ''text'')) False (js ''   '') 0) exampleGroups
            = Inr (True, gs')
       \<and> errorElement (gs' 0) = Some [])"
proof -
  let ?req = "exampleField (Input (js ''text'')) True (js ''   '') 0"
  let ?opt = "exampleField (Input (js ''text'')) False (js ''   '') 0"
  have b: "blank (field_value ?req)" "blank (field_value ?opt)"
    using blank_spaces by simp_all
  have c: "closest ?req = Some 0" "closest ?opt = Some 0"
    by simp_all
  have e: "errorElement (exampleGroups 0) = Some []" by simp
  from validateField_blank[of ?req 0 exampleGroups] b(1) c(1) e
  have 1: "\<exists>gs'. validateField ?req exampleGroups = Inr (False, gs')
       \<and> errorElement (gs' 0) = Some (js ''This field is required'')"
    by auto
  from validateField_blank[of ?opt 0 exampleGroups] b(2) c(2) e
  have 2: "\<exists>gs'. validateField ?opt exampleGroups = Inr (True, gs')
       \<and> errorElement (gs' 0) = Some []"
    by auto
  from 1 2 show ?thesis by blast
qed

text \<open>
  C3. For a field of type \<open>email\<close> inside a \<open>.form-group\<close>: a value that is
  not blank and fails \<open>validateEmail\<close> makes \<open>validateField\<close> return false, mark
  the group and write \<open>Please enter a valid email address\<close> into its message slot;
  a blank value in a field that is not required makes it return true, with the group
  unmarked and the slot empty.
\<close>

theorem validateField_email:
  assumes "field_type (kind fld) = js ''email''" and "closest fld = Some g"
  shows "(\<not> blank (field_value fld) \<and> \<not> validateEmail (field_value fld) \<longrightarrow>
            (\<exists>gs'. validateField fld gs = Inr (False, gs')
               \<and> classList_contains (js ''error'') (classList (gs' g))
               \<and> (\<forall>old. errorElement (gs g) = Some old \<longrightarrow>
                    errorElement (gs' g) = Some (js ''Please enter a valid email address''))))
     \<and> (blank (field_value fld) \<and> \<not> required fld \<longrightarrow>
            (\<exists>gs'. validateField fld gs = Inr (True, gs')
               \<and> \<not> classList_contains (js ''error'') (classList (gs' g))
               \<and> (\<forall>old. errorElement (gs g) = Some old \<longrightarrow> errorElement (gs' g) = Some [])))"
proof (intro conjI impI)
  assume "\<not> blank (field_value fld) \<and> \<not> validateEmail (field_value fld)"
  then have "\<not> blank (field_value fld)" "\<not> validateEmail (field_value fld)" by simp_all
  with assms(1) have "\<not> passes fld"
    "groupAfter fld (gs g) = showError (clearError (gs g)) (js ''Please enter a valid email address'')"
    by (simp_all add: passes_def groupAfter_def validateRequired_iff trim_eq_Nil_iff)
  then show "\<exists>gs'. validateField fld gs = Inr (False, gs')
               \<and> classList_contains (js ''error'') (classList (gs' g))
               \<and> (\<forall>old. errorElement (gs g) = Some old \<longrightarrow>
                    errorElement (gs' g) = Some (js ''Please enter a valid email address''))"
    by (auto simp: validateField_eq[OF assms(2)] showError_fields showError_slot)
next
  assume "blank (field_value fld) \<and> \<not> required fld"
  then have "blank (field_value fld)" "\<not> required fld" by simp_all
  then have "passes fld" "groupAfter fld (gs g) = clearError (gs g)"
    by (simp_all add: passes_def groupAfter_def trim_eq_Nil_iff)
  then show "\<exists>gs'. validateField fld gs = Inr (True, gs')
               \<and> \<not> classList_contains (js ''error'') (classList (gs' g))
               \<and> (\<forall>old. errorElement (gs g) = Some old \<longrightarrow> errorElement (gs' g) = Some [])"
    by (auto simp: validateField_eq[OF assms(2)] clearError_fields)
qed

theorem validateField_email_witness:
  "(\<exists>gs'. validateField (exampleField (Input (js ''email'')) False (js ''bad'') 1) exampleGroups
            = Inr (False, gs')
       \<and> errorElement (gs' 1) = Some (js ''Please enter a valid email address''))
   \<and> (\<exists>gs'. validateField (exampleField (Input (js ''email'')) False (js ''   '') 1) exampleGroups
            = Inr (True, gs')
       \<and> errorElement (gs' 1) = Some [])"
proof -
  let ?bad = "exampleField (Input (js ''email'')) False (js ''bad'') 1"
  let ?empty = "exampleField (Input (js ''email'')) False (js ''   '') 1"
  have t: "field_type (kind ?bad) = js ''email''" "field_type (kind ?empty) = js ''email''"
    by simp_all
  have c: "closest ?bad = Some 1" "closest ?empty = Some 1"
    by simp_all
  have e: "errorElement (exampleGroups 1) = Some []" by simp
  have v: "\<not> blank (field_value ?bad) \<and> \<not> validateEmail (field_value ?bad)"
    using not_blank_bad not_email_bad by simp
  have w: "blank (field_value ?empty) \<and> \<not> required ?empty"
    using blank_spaces by simp
  from validateField_email[of ?bad 1 exampleGroups] t(1) c(1) e v
  have 1: "\<exists>gs'. validateField ?bad exampleGroups = Inr (False, gs')
       \<and> errorElement (gs' 1) = Some (js ''Please enter a valid email address'')"
    by blast
  from validateField_email[of ?empty 1 exampleGroups] t(2) c(2) e w
  have 2: "\<exists>gs'. validateField ?empty exampleGroups = Inr (True, gs')
       \<and> errorElement (gs' 1) = Some []"
    by blast
  from 1 2 show ?thesis by blast
qed

lemma matchesSelector_iff:
  "matchesSelector fld \<longleftrightarrow> required fld \<or> field_type (kind fld) = js ''email''"
  by (cases "kind fld") (auto simp: matchesSelector_def)

lemma set_querySelectorAll:
  "set (querySelectorAll form)
     = {fld \<in> set form. required fld \<or> field_type (kind fld) = js ''email''}"
  by (auto simp: querySelectorAll_def matchesSelector_iff)

lemma validateField_True_iff:
  "closest fld = Some g \<Longrightarrow> (\<exists>gs'. validateField fld gs = Inr (True, gs')) \<longleftrightarrow> passes fld"
  by (simp add: validateField_eq)

lemma groupAfter_error:
  "\<not> passes fld \<Longrightarrow> classList_contains (js ''error'') (classList (groupAfter fld grp))"
  by (auto simp: passes_def groupAfter_def showError_fields)

lemma forEach_all:
  assumes "\<forall>f\<in>set flds. closest f \<noteq> None"
  shows "\<exists>gs'. forEach flds b gs = Inr (b \<and> (\<forall>f\<in>set flds. passes f), gs')
      \<and> (\<forall>h. Some h \<notin> closest ` set flds \<longrightarrow> gs' h = gs h)
      \<and> (distinct (map closest flds) \<longrightarrow>
           (\<forall>f\<in>set flds. \<forall>g. closest f = Some g \<longrightarrow> gs' g = groupAfter f (gs g)))"
  using assms
proof (induction flds arbitrary: b gs)
  case Nil
  then show ?case by simp
next
  case (Cons f fs)
  from Cons.prems obtain g where g: "closest f = Some g" by auto
  define gs1 where "gs1 = gs(g := groupAfter f (gs g))"
  define b1 where "b1 = (if \<not> passes f then False else b)"
  have step: "forEach (f # fs) b gs = forEach fs b1 gs1"
    by (simp add: validateField_eq[OF g] gs1_def b1_def)
  from Cons.prems have "\<forall>f\<in>set fs. closest f \<noteq> None" by simp
  from Cons.IH[OF this, of b1 gs1] obtain gs' where
    res: "forEach fs b1 gs1 = Inr (b1 \<and> (\<forall>f\<in>set fs. passes f), gs')"
    and untouched: "\<forall>h. Some h \<notin> closest ` set fs \<longrightarrow> gs' h = gs1 h"
    and own: "distinct (map closest fs) \<longrightarrow>
           (\<forall>f\<in>set fs. \<forall>g. closest f = Some g \<longrightarrow> gs' g = groupAfter f (gs1 g))"
    by blast
  have 1: "forEach (f # fs) b gs = Inr (b \<and> (\<forall>x\<in>set (f # fs). passes x), gs')"
    using step res by (auto simp: b1_def)
  have 2: "\<forall>h. Some h \<notin> closest ` set (f # fs) \<longrightarrow> gs' h = gs h"
  proof (intro allI impI)
    fix h assume h: "Some h \<notin> closest ` set (f # fs)"
    with g have "h \<noteq> g" "Some h \<notin> closest ` set fs" by auto
    with untouched show "gs' h = gs h" by (simp add: gs1_def)
  qed
  have 3: "distinct (map closest (f # fs)) \<longrightarrow>
           (\<forall>x\<in>set (f # fs). \<forall>k. closest x = Some k \<longrightarrow> gs' k = groupAfter x (gs k))"
  proof (intro impI ballI allI)
    fix x k
    assume d: "distinct (map closest (f # fs))" and x: "x \<in> set (f # fs)"
      and k: "closest x = Some k"
    from d g have fresh: "Some g \<notin> closest ` set fs" and dfs: "distinct (map closest fs)"
      by auto
    show "gs' k = groupAfter x (gs k)"
    proof (cases "x \<in> set fs")
      case True
      with fresh k have "k \<noteq> g" by force
      moreover from own dfs True k have "gs' k = groupAfter x (gs1 k)" by blast
      ultimately show ?thesis by (simp add: gs1_def)
    next
      case False
      with x have "x = f" by simp
      with g k have "k = g" by simp
      with fresh untouched have "gs' k = gs1 k" by blast
      with \<open>k = g\<close> \<open>x = f\<close> show ?thesis by (simp add: gs1_def)
    qed
  qed
  from 1 2 3 show ?case by blast
qed

lemma forEach_throws:
  assumes "\<exists>f\<in>set flds. closest f = None"
  shows "forEach flds b gs = Inl TypeError"
  using assms
proof (induction flds arbitrary: b gs)
  case Nil
  then show ?case by simp
next
  case (Cons f fs)
  show ?case
  proof (cases "closest f")
    case None
    then show ?thesis by (simp add: validateField_no_group)
  next
    case (Some g)
    with Cons.prems have "\<exists>f\<in>set fs. closest f = None" by auto
    then have "forEach fs b' gs' = Inl TypeError" for b' gs'
      by (rule Cons.IH)
    then show ?thesis by (simp add: validateField_eq[OF Some])
  qed
qed

text \<open>
  C4. \<open>validateForm\<close> returns true exactly when \<open>validateField\<close> returns true for
  every required field and every field of type \<open>email\<close> of the form. The loop does
  not stop at a failure: when every checked field has a group of its own, the call
  ends with each of those groups in the state \<open>validateField\<close> gives it, so every
  invalid field is marked.
\<close>

theorem validateForm_conjunction:
  "((\<exists>gs'. validateForm form gs = Inr (True, gs')) \<longleftrightarrow>
      (\<forall>f\<in>set form. required f \<or> field_type (kind f) = js ''email'' \<longrightarrow>
         (\<exists>gs_f. validateField f gs = Inr (True, gs_f))))
   \<and> ((\<forall>f\<in>set (querySelectorAll form). closest f \<noteq> None)
        \<and> distinct (map closest (querySelectorAll form)) \<longrightarrow>
       (\<exists>ok gs'. validateForm form gs = Inr (ok, gs') \<and>
          (\<forall>f\<in>set form. required f \<or> field_type (kind f) = js ''email'' \<longrightarrow>
             (\<exists>g ok_f gs_f. closest f = Some g \<and> validateField f gs = Inr (ok_f, gs_f)
                \<and> gs' g = gs_f g
                \<and> (\<not> ok_f \<longrightarrow> classList_contains (js ''error'') (classList (gs' g)))))))"
proof (rule conjI)
  let ?sel = "querySelectorAll form"
  let ?checked = "\<lambda>f. required f \<or> field_type (kind f) = js ''email''"
  have sel: "f \<in> set ?sel \<longleftrightarrow> f \<in> set form \<and> ?checked f" for f
    by (simp add: set_querySelectorAll)
  show "(\<exists>gs'. validateForm form gs = Inr (True, gs')) \<longleftrightarrow>
      (\<forall>f\<in>set form. ?checked f \<longrightarrow> (\<exists>gs_f. validateField f gs = Inr (True, gs_f)))"
  proof (cases "\<forall>f\<in>set ?sel. closest f \<noteq> None")
    case True
    from forEach_all[OF True, of True gs] obtain gs' where
      res: "validateForm form gs = Inr (\<forall>f\<in>set ?sel. passes f, gs')"
      unfolding validateForm_def by auto
    have "(\<exists>gs_f. validateField f gs = Inr (True, gs_f)) \<longleftrightarrow> passes f" if "f \<in> set ?sel" for f
    proof -
      from that True obtain g where "closest f = Some g" by auto
      then show ?thesis by (rule validateField_True_iff)
    qed
    then have "(\<forall>f\<in>set ?sel. passes f) \<longleftrightarrow>
      (\<forall>f\<in>set form. ?checked f \<longrightarrow> (\<exists>gs_f. validateField f gs = Inr (True, gs_f)))"
      using sel by blast
    with res show ?thesis by auto
  next
    case False
    then obtain f where f: "f \<in> set ?sel" "closest f = None" by blast
    then have "validateForm form gs = Inl TypeError"
      unfolding validateForm_def by (intro forEach_throws) blast
    moreover from f have "validateField f gs = Inl TypeError"
      by (simp add: validateField_no_group)
    ultimately show ?thesis using f(1) sel by auto
  qed
  show "(\<forall>f\<in>set ?sel. closest f \<noteq> None) \<and> distinct (map closest ?sel) \<longrightarrow>
       (\<exists>ok gs'. validateForm form gs = Inr (ok, gs') \<and>
          (\<forall>f\<in>set form. ?checked f \<longrightarrow>
             (\<exists>g ok_f gs_f. closest f = Some g \<and> validateField f gs = Inr (ok_f, gs_f)
                \<and> gs' g = gs_f g
                \<and> (\<not> ok_f \<longrightarrow> classList_contains (js ''error'') (classList (gs' g))))))"
  proof
    assume "(\<forall>f\<in>set ?sel. closest f \<noteq> None) \<and> distinct (map closest ?sel)"
    then have grp: "\<forall>f\<in>set ?sel. closest f \<noteq> None" and d: "distinct (map closest ?sel)"
      by simp_all
    from forEach_all[OF grp, of True gs] d obtain gs' where
      res: "validateForm form gs = Inr (\<forall>f\<in>set ?sel. passes f, gs')"
      and own: "\<forall>f\<in>set ?sel. \<forall>g. closest f = Some g \<longrightarrow> gs' g = groupAfter f (gs g)"
      unfolding validateForm_def by auto
    have "\<exists>g ok_f gs_f. closest f = Some g \<and> validateField f gs = Inr (ok_f, gs_f)
                \<and> gs' g = gs_f g
                \<and> (\<not> ok_f \<longrightarrow> classList_contains (js ''error'') (classList (gs' g)))"
      if f: "f \<in> set ?sel" for f
    proof -
      from f grp obtain g where g: "closest f = Some g" by auto
      with own f have eq: "gs' g = groupAfter f (gs g)" by blast
      have "validateField f gs = Inr (passes f, gs(g := groupAfter f (gs g)))"
        by (rule validateField_eq[OF g])
      moreover have "gs' g = (gs(g := groupAfter f (gs g))) g" using eq by simp
      moreover have "\<not> passes f \<longrightarrow> classList_contains (js ''error'') (classList (gs' g))"
        using eq by (simp add: groupAfter_error)
      ultimately show ?thesis using g by blast
    qed
    with res sel show "\<exists>ok gs'. validateForm form gs = Inr (ok, gs') \<and>
          (\<forall>f\<in>set form. ?checked f \<longrightarrow>
             (\<exists>g ok_f gs_f. closest f = Some g \<and> validateField f gs = Inr (ok_f, gs_f)
                \<and> gs' g = gs_f g
                \<and> (\<not> ok_f \<longrightarrow> classList_contains (js ''error'') (classList (gs' g)))))"
      by blast
  qed
qed

theorem validateForm_conjunction_witness:
  "(\<exists>gs'. validateForm validForm exampleGroups = Inr (True, gs'))
   \<and> (\<exists>gs'. validateForm exampleForm exampleGroups = Inr (False, gs')
     \<and> classList_contains (js ''error'') (classList (gs' 0))
     \<and> classList_contains (js ''error'') (classList (gs' 1))
     \<and> \<not> classList_contains (js ''error'') (classList (gs' 2)))"
proof -
  let ?name = "exampleField (Input (js ''text'')) True (js ''   '') 0"
  let ?email = "exampleField (Input (js ''email'')) True (js ''bad'') 1"
  let ?message = "exampleField Textarea True (js ''Hello'') 2"
  let ?checked = "\<lambda>f. required f \<or> field_type (kind f) = js ''email''"
  have good: "\<forall>f\<in>set validForm. ?checked f \<longrightarrow>
      (\<exists>gs_f. validateField f exampleGroups = Inr (True, gs_f))"
    using not_blank_examples not_blank_Hello validateEmail_alice
    by (simp add: validForm_def validateField_eq passes_def validateRequired_iff)
  with validateForm_conjunction[of validForm exampleGroups]
  have first: "\<exists>gs'. validateForm validForm exampleGroups = Inr (True, gs')"
    by blast
  have sel: "querySelectorAll exampleForm = exampleForm"
    by (simp add: querySelectorAll_def exampleForm_def matchesSelector_def)
  have grp: "\<forall>f\<in>set (querySelectorAll exampleForm). closest f \<noteq> None"
    by (simp add: sel) (simp add: exampleForm_def)
  have dist: "distinct (map closest (querySelectorAll exampleForm))"
    by (simp add: sel) (simp add: exampleForm_def)
  have p: "\<not> passes ?name" "\<not> passes ?email" "passes ?message"
    using blank_spaces not_blank_bad not_email_bad not_blank_Hello
    by (simp_all add: passes_def validateRequired_iff trim_eq_Nil_iff)
  have mem: "?name \<in> set exampleForm" "?email \<in> set exampleForm" "?message \<in> set exampleForm"
    by (simp_all add: exampleForm_def)
  from validateForm_conjunction[of exampleForm exampleGroups] grp dist obtain ok gs' where
    res: "validateForm exampleForm exampleGroups = Inr (ok, gs')"
    and marks: "\<forall>f\<in>set exampleForm. ?checked f \<longrightarrow>
             (\<exists>g ok_f gs_f. closest f = Some g \<and> validateField f exampleGroups = Inr (ok_f, gs_f)
                \<and> gs' g = gs_f g
                \<and> (\<not> ok_f \<longrightarrow> classList_contains (js ''error'') (classList (gs' g))))"
    by blast
  have "\<not> (\<exists>gs_f. validateField ?name exampleGroups = Inr (True, gs_f))"
    using p(1) by (simp add: validateField_eq)
  with validateForm_conjunction[of exampleForm exampleGroups] mem(1) res have 0: "\<not> ok" by auto
  from marks mem(1) have 1: "classList_contains (js ''error'') (classList (gs' 0))"
    using p(1) by (auto simp: validateField_eq)
  from marks mem(2) have 2: "classList_contains (js ''error'') (classList (gs' 1))"
    using p(2) by (auto simp: validateField_eq)
  from marks mem(3) have "gs' 2 = groupAfter ?message (exampleGroups 2)"
    by (auto simp: validateField_eq)
  also have "\<dots> = clearError (exampleGroups 2)"
    using not_blank_Hello by (simp add: groupAfter_def validateRequired_iff)
  finally have 3: "\<not> classList_contains (js ''error'') (classList (gs' 2))"
    by (simp add: clearError_fields)
  from res 0 1 2 3 have "\<exists>gs'. validateForm exampleForm exampleGroups = Inr (False, gs')
     \<and> classList_contains (js ''error'') (classList (gs' 0))
     \<and> classList_contains (js ''error'') (classList (gs' 1))
     \<and> \<not> classList_contains (js ''error'') (classList (gs' 2))" by auto
  with first show ?thesis by blast
qed

text \<open>
  Where two checked fields share one group, the second call clears what the first
  one set: the form is rejected and the group ends unmarked.
\<close>

lemma shared_group_mark_cleared:
  "\<exists>gs'. validateForm sharedGroupForm exampleGroups = Inr (False, gs')
     \<and> \<not> classList_contains (js ''error'') (classList (gs' 0))"
proof -
  have p: "\<not> passes (exampleField (Input (js ''text'')) True (js ''   '') 0)"
    "passes (exampleField Textarea True (js ''Hello'') 0)"
    using blank_spaces not_blank_Hello
    by (simp_all add: passes_def validateRequired_iff)
  have g: "groupAfter (exampleField Textarea True (js ''Hello'') 0) grp = clearError grp" for grp
    using not_blank_Hello by (simp add: groupAfter_def validateRequired_iff)
  have sel: "querySelectorAll sharedGroupForm = sharedGroupForm"
    by (simp add: querySelectorAll_def sharedGroupForm_def matchesSelector_def)
  show ?thesis
    by (simp add: validateForm_def sel) (simp add: sharedGroupForm_def validateField_eq p g clearError_fields)
qed

section \<open>Properties of the portfolio modal\<close>

lemma classList_add_idem [simp]: "classList_add c (classList_add c cl) = classList_add c cl"
  by (simp add: classList_add_def)

lemma map_of_portfolioData:
  "map_of portfolioData key = Some p \<longleftrightarrow>
     key = js ''Project One'' \<and> p = projectOne
     \<or> key = js ''Project Two'' \<and> p = projectTwo
     \<or> key = js ''Project Three'' \<and> p = projectThree"
  by (auto simp: portfolioData_def)

lemma title_is_key: "map_of portfolioData key = Some p \<Longrightarrow> title p = key"
  by (auto simp: map_of_portfolioData projectOne_def projectTwo_def projectThree_def)

lemma getProperty_own: "map_of portfolioData key = Some p \<Longrightarrow> getProperty key = Project p"
  by (simp add: getProperty_def)

lemma openTitle_own:
  "map_of portfolioData key = Some p \<Longrightarrow>
   openTitle key s =
     s\<lparr>modalImage_src := image p, modalImage_alt := imageAlt p, modalTitle := title p,
       modalDescription := description p, modalDetails := detailedDescription p,
       modal_classList := classList_add (js ''active'') (modal_classList s),
       body_overflow := js ''hidden'', activeElement := ModalClose\<rparr>"
  by (simp add: openTitle_def Let_def getProperty_own toDOMString_def toTextContent_def)

lemma openTitle_undefined: "getProperty key = Undefined \<Longrightarrow> openTitle key s = s"
  by (simp add: openTitle_def Let_def)

lemma open_unknown_title:
  "map_of portfolioData key = None \<Longrightarrow> key \<notin> set objectPrototypeKeys \<Longrightarrow> openTitle key s = s"
  by (simp add: openTitle_undefined getProperty_def)

lemma openTitle_truthy:
  "truthy (getProperty key) \<Longrightarrow>
     overlayActive (openTitle key s) \<and> scrollSuppressed (openTitle key s)"
  by (simp add: openTitle_def Let_def overlayActive_def scrollSuppressed_def)

lemma closeModal_fields:
  "modal_classList (closeModal s) = classList_remove (js ''active'') (modal_classList s)"
  "body_overflow (closeModal s) = []"
  by (simp_all add: closeModal_def Let_def split: focus.split)

lemma closeModal_eq:
  "closeModal s = s\<lparr>modal_classList := classList_remove (js ''active'') (modal_classList s),
                     body_overflow := []\<rparr>"
  by (simp add: closeModal_def Let_def split: focus.split)

text \<open>
  C5. Opening an item whose title is a key of \<open>portfolioData\<close> fills the five
  slots of the overlay from the record, makes the overlay active and suppresses page
  scrolling; for \<open>Project One\<close> the title slot reads \<open>Project One\<close>.
\<close>

theorem open_known_title:
  assumes "portfolio_title it = Some key" and "map_of portfolioData key = Some p"
  shows "\<exists>s'. openPortfolioModal it s = Inr s'
     \<and> modalImage_src s' = image p \<and> modalImage_alt s' = imageAlt p
     \<and> modalTitle s' = title p \<and> modalDescription s' = description p
     \<and> modalDetails s' = detailedDescription p
     \<and> overlayActive s' \<and> scrollSuppressed s'
     \<and> (key = js ''Project One'' \<longrightarrow> modalTitle s' = js ''Project One'' \<and> overlayActive s')"
proof -
  have run: "openPortfolioModal it s = Inr (openTitle key s)"
    using assms(1) by (simp add: openPortfolioModal_def)
  have shown: "overlayActive (openTitle key s)" "scrollSuppressed (openTitle key s)"
    using openTitle_truthy[of key s] assms(2) by (simp_all add: getProperty_own)
  have key: "title p = key" using assms(2) by (rule title_is_key)
  have slots: "modalImage_src (openTitle key s) = image p"
    "modalImage_alt (openTitle key s) = imageAlt p"
    "modalTitle (openTitle key s) = title p"
    "modalDescription (openTitle key s) = description p"
    "modalDetails (openTitle key s) = detailedDescription p"
    by (simp_all add: openTitle_own[OF assms(2)])
  from run shown key slots show ?thesis by auto
qed

theorem open_known_title_witness:
  "\<exists>s'. openPortfolioModal (exampleItem 0 ''Project One'') closedPage = Inr s'
     \<and> modalImage_src s' = js ''images/project1.jpg''
     \<and> modalImage_alt s' = js ''Screenshot of Project 1''
     \<and> modalTitle s' = js ''Project One''
     \<and> modalDescription s' = js ''A responsive web application built with modern technologies.''
     \<and> overlayActive s' \<and> scrollSuppressed s'"
proof -
  have t: "portfolio_title (exampleItem 0 ''Project One'') = Some (js ''Project One'')"
    by (simp add: exampleItem_def)
  have m: "map_of portfolioData (js ''Project One'') = Some projectOne"
    by (simp add: map_of_portfolioData)
  from open_known_title[OF t m, of closedPage] show ?thesis
    by (auto simp: projectOne_def)
qed

text \<open>
  C6. A title that is no key of \<open>portfolioData\<close> is meant to leave the page
  unchanged, and does so when it is not a property name of \<open>Object.prototype\<close> either
  (\<open>open_unknown_title\<close>). The title \<open>constructor\<close> is no key of \<open>portfolioData\<close>,
  yet the property read finds \<open>Object.prototype.constructor\<close>, the test
  \<open>if (projectData)\<close> succeeds, and the overlay opens on a closed page with its
  slots overwritten and page scrolling suppressed.
\<close>

theorem open_inherited_key:
  "map_of portfolioData (js ''constructor'') = None
   \<and> \<not> overlayActive closedPage \<and> \<not> scrollSuppressed closedPage
   \<and> openPortfolioModal (exampleItem 0 ''constructor'') closedPage
       = Inr (closedPage\<lparr>modalImage_src := js ''undefined'', modalImage_alt := js ''undefined'',
                modal_classList := [js ''modal'', js ''active''],
                body_overflow := js ''hidden'', activeElement := ModalClose\<rparr>)
   \<and> overlayActive (openTitle (js ''constructor'') closedPage)
   \<and> scrollSuppressed (openTitle (js ''constructor'') closedPage)"
proof -
  have k: "map_of portfolioData (js ''constructor'') = None"
    by (simp add: portfolioData_def)
  have g: "getProperty (js ''constructor'') = Inherited"
    by (simp add: getProperty_def k objectPrototypeKeys_def)
  have o: "openTitle (js ''constructor'') closedPage
       = closedPage\<lparr>modalImage_src := js ''undefined'', modalImage_alt := js ''undefined'',
                modal_classList := [js ''modal'', js ''active''],
                body_overflow := js ''hidden'', activeElement := ModalClose\<rparr>"
    by (simp add: openTitle_def g toDOMString_def toTextContent_def closedPage_def
          classList_add_def Let_def)
  have c: "\<not> overlayActive closedPage" "\<not> scrollSuppressed closedPage"
    by (simp_all add: overlayActive_def scrollSuppressed_def closedPage_def
          classList_contains_def)
  have a: "overlayActive (openTitle (js ''constructor'') closedPage)"
    "scrollSuppressed (openTitle (js ''constructor'') closedPage)"
    using openTitle_truthy[of "js ''constructor''" closedPage] g by simp_all
  have "openPortfolioModal (exampleItem 0 ''constructor'') closedPage
       = Inr (openTitle (js ''constructor'') closedPage)"
    by (simp add: openPortfolioModal_def exampleItem_def)
  with k o c a show ?thesis by simp
qed

text \<open>
  C7. In every state \<open>closeModal\<close> leaves the overlay inactive and
  \<open>body.style.overflow\<close> empty; opening a known title right after it gives the same
  overflow value as opening without the close, namely \<open>hidden\<close>.
\<close>

theorem close_then_open:
  "\<not> overlayActive (closeModal s) \<and> \<not> scrollSuppressed (closeModal s)
   \<and> body_overflow (closeModal s) = []
   \<and> (map_of portfolioData key = Some p \<longrightarrow>
        body_overflow (openTitle key (closeModal s)) = body_overflow (openTitle key s)
        \<and> scrollSuppressed (openTitle key (closeModal s))
        \<and> overlayActive (openTitle key (closeModal s)))"
proof -
  have 1: "\<not> overlayActive (closeModal s)"
    by (simp add: overlayActive_def closeModal_fields)
  have 2: "\<not> scrollSuppressed (closeModal s)" "body_overflow (closeModal s) = []"
    by (simp_all add: scrollSuppressed_def closeModal_fields)
  have 3: "body_overflow (openTitle key (closeModal s)) = body_overflow (openTitle key s)
        \<and> scrollSuppressed (openTitle key (closeModal s))
        \<and> overlayActive (openTitle key (closeModal s))"
    if "map_of portfolioData key = Some p"
    using openTitle_truthy[of key "closeModal s"] that
    by (simp add: getProperty_own openTitle_own[OF that])
  from 1 2 3 show ?thesis by blast
qed

theorem close_then_open_witness:
  "\<not> overlayActive (closeModal (openTitle (js ''Project One'') closedPage))
   \<and> \<not> scrollSuppressed (closeModal (openTitle (js ''Project One'') closedPage))
   \<and> scrollSuppressed (openTitle (js ''Project Two'') (closeModal (openTitle (js ''Project One'') closedPage)))
   \<and> overlayActive (openTitle (js ''Project Two'') (closeModal (openTitle (js ''Project One'') closedPage)))"
proof -
  have m: "map_of portfolioData (js ''Project Two'') = Some projectTwo"
    by (simp add: map_of_portfolioData)
  from close_then_open[of "openTitle (js ''Project One'') closedPage" "js ''Project Two''" projectTwo] m
  show ?thesis by blast
qed

text \<open>
  C8. Opening the same title twice in a row gives the same page as opening it
  once, for every title; a second \<open>openPortfolioModal\<close> on the same item returns the
  page the first one produced.
\<close>

theorem open_idempotent:
  "openTitle key (openTitle key s) = openTitle key s
   \<and> (case openPortfolioModal it s of
        Inl e \<Rightarrow> e = TypeError \<and> portfolio_title it = None
      | Inr s' \<Rightarrow> openPortfolioModal it s' = Inr s')"
proof
  show twice: "openTitle key (openTitle key s) = openTitle key s" for key
    by (simp add: openTitle_def Let_def)
  show "case openPortfolioModal it s of
        Inl e \<Rightarrow> e = TypeError \<and> portfolio_title it = None
      | Inr s' \<Rightarrow> openPortfolioModal it s' = Inr s'"
  proof (cases "portfolio_title it")
    case None
    then show ?thesis by (simp add: openPortfolioModal_def)
  next
    case (Some t)
    then show ?thesis by (simp add: openPortfolioModal_def twice)
  qed
qed

text \<open>
  C9. A \<open>keydown\<close> with key \<open>Enter\<close> or a space on a portfolio item does exactly
  what a click on that item does: both call \<open>preventDefault\<close> and run
  \<open>openPortfolioModal\<close> on the item, that is, open the item's displayed title.
\<close>

theorem keyboard_pointer_equivalent:
  assumes "key = js ''Enter'' \<or> key = js '' ''"
  shows "item_keydown key it s = item_click it s
     \<and> item_click it s = (True, openPortfolioModal it s)
     \<and> (\<forall>t. portfolio_title it = Some t \<longrightarrow> item_click it s = (True, Inr (openTitle t s)))"
  using assms by (auto simp: item_keydown_def item_click_def openPortfolioModal_def)

theorem keyboard_pointer_equivalent_witness:
  "item_keydown (js ''Enter'') (exampleItem 1 ''Project Two'') closedPage
     = item_click (exampleItem 1 ''Project Two'') closedPage
   \<and> item_keydown (js '' '') (exampleItem 1 ''Project Two'') closedPage
     = item_click (exampleItem 1 ''Project Two'') closedPage
   \<and> item_click (exampleItem 1 ''Project Two'') closedPage
     = (True, Inr (openTitle (js ''Project Two'') closedPage))"
proof -
  have t: "portfolio_title (exampleItem 1 ''Project Two'') = Some (js ''Project Two'')"
    by (simp add: exampleItem_def)
  from keyboard_pointer_equivalent[of "js ''Enter''" "exampleItem 1 ''Project Two''" closedPage]
    keyboard_pointer_equivalent[of "js '' ''" "exampleItem 1 ''Project Two''" closedPage] t
  show ?thesis by simp
qed

text \<open>
  C10. A \<open>keydown\<close> with key \<open>Escape\<close> runs \<open>closeModal\<close> when the overlay is
  active, leaving it inactive with \<open>body.style.overflow\<close> empty; when the overlay
  is inactive the page is unchanged. The listener of a portfolio item ignores the
  key.
\<close>

theorem escape_closes_iff_active:
  "(overlayActive s \<longrightarrow>
      document_keydown (js ''Escape'') s = closeModal s
      \<and> \<not> overlayActive (document_keydown (js ''Escape'') s)
      \<and> body_overflow (document_keydown (js ''Escape'') s) = []
      \<and> \<not> scrollSuppressed (document_keydown (js ''Escape'') s))
   \<and> (\<not> overlayActive s \<longrightarrow> document_keydown (js ''Escape'') s = s)
   \<and> item_keydown (js ''Escape'') it s = (False, Inr s)"
  by (simp add: document_keydown_def overlayActive_def scrollSuppressed_def closeModal_fields
        item_keydown_def)

theorem escape_closes_iff_active_witness:
  "\<not> overlayActive (document_keydown (js ''Escape'') (openTitle (js ''Project One'') closedPage))
   \<and> body_overflow (document_keydown (js ''Escape'') (openTitle (js ''Project One'') closedPage)) = []
   \<and> document_keydown (js ''Escape'') (closedPage\<lparr>body_overflow := js ''hidden''\<rparr>)
       = closedPage\<lparr>body_overflow := js ''hidden''\<rparr>
   \<and> item_keydown (js ''Escape'') (exampleItem 0 ''Project One'') closedPage = (False, Inr closedPage)"
proof -
  have m: "map_of portfolioData (js ''Project One'') = Some projectOne"
    by (simp add: map_of_portfolioData)
  have a: "overlayActive (openTitle (js ''Project One'') closedPage)"
    using openTitle_truthy[of "js ''Project One''" closedPage] by (simp add: getProperty_own[OF m])
  have i: "\<not> overlayActive (closedPage\<lparr>body_overflow := js ''hidden''\<rparr>)"
    by (simp add: overlayActive_def closedPage_def classList_contains_def)
  from escape_closes_iff_active[of "openTitle (js ''Project One'') closedPage" "exampleItem 0 ''Project One''"]
    escape_closes_iff_active[of "closedPage\<lparr>body_overflow := js ''hidden''\<rparr>" "exampleItem 0 ''Project One''"]
    escape_closes_iff_active[of closedPage "exampleItem 0 ''Project One''"] a i
  show ?thesis by blast
qed

end
